theory Spec2Isabelle
  imports Complex_Main "HOL-Library.Multiset"
begin

section \<open>JavaScript numbers\<close>

text \<open>
  A TypeScript \<^verbatim>\<open>number\<close> is an IEEE-754 binary64 value. It is modelled by its exact
  rational value, or one of the three special values. The two zeros are identified (they
  are equal under \<^verbatim>\<open>===\<close>). A value \<open>Fin q\<close> is a double when rounding leaves it
  unchanged (\<open>isDouble\<close>); every arithmetic result is rounded to the nearest double,
  ties to the even significand, as the hardware does.
\<close>

datatype number = NaN | PInf | NInf | Fin rat

function bitlen :: "int \<Rightarrow> int" where
  "bitlen n = (if n \<le> 0 then 0 else 1 + bitlen (n div 2))"
  by pat_completeness auto
termination
  by (relation "measure nat") auto

declare bitlen.simps [simp del]

definition pow2 :: "int \<Rightarrow> rat" where
  "pow2 k = (if 0 \<le> k then 2 ^ nat k else 1 / 2 ^ nat (- k))"

text \<open>\<open>ilog2 q\<close> is the binary exponent \<open>\<lfloor>log\<^sub>2 q\<rfloor>\<close> of a positive rational.\<close>

definition ilog2 :: "rat \<Rightarrow> int" where
  "ilog2 q = (case quotient_of q of (n, d) \<Rightarrow>
     let k = bitlen n - bitlen d
     in if pow2 k \<le> q then k else k - 1)"

definition roundHalfEven :: "rat \<Rightarrow> int" where
  "roundHalfEven x = (let f = \<lfloor>x\<rfloor>; r = x - of_int f
     in if r < 1 / 2 then f else if 1 / 2 < r then f + 1 else if even f then f else f + 1)"

text \<open>
  Round to nearest, ties to even, with a 53-bit significand, gradual underflow below
  \<open>2^-1022\<close> (the exponent of the last place never goes below \<open>-1074\<close>) and overflow to
  an infinity from \<open>2^1024\<close> on: the rounded significand \<open>m\<close> at exponent \<open>e\<close> is at least
  \<open>2^1024\<close> exactly when \<open>bitlen m + e\<close> exceeds \<open>1024\<close>.
\<close>

definition round64 :: "rat \<Rightarrow> number" where
  "round64 q = (if q = 0 then Fin 0 else
     let e = max (ilog2 \<bar>q\<bar> - 52) (- 1074);
         m = roundHalfEven (\<bar>q\<bar> / pow2 e)
     in if 1024 < bitlen m + e then (if 0 < q then PInf else NInf)
        else Fin (sgn q * (of_int m * pow2 e)))"


text \<open>The operators \<^verbatim>\<open>+\<close>, unary \<^verbatim>\<open>-\<close> and binary \<^verbatim>\<open>-\<close> on numbers.\<close>

fun fadd :: "number \<Rightarrow> number \<Rightarrow> number" where
  "fadd (Fin a) (Fin b) = round64 (a + b)"
| "fadd NaN y = NaN"
| "fadd x NaN = NaN"
| "fadd PInf NInf = NaN"
| "fadd NInf PInf = NaN"
| "fadd PInf y = PInf"
| "fadd x PInf = PInf"
| "fadd NInf y = NInf"
| "fadd x NInf = NInf"

fun fneg :: "number \<Rightarrow> number" where
  "fneg (Fin a) = Fin (- a)"
| "fneg PInf = NInf"
| "fneg NInf = PInf"
| "fneg NaN = NaN"

definition fsub :: "number \<Rightarrow> number \<Rightarrow> number" where
  "fsub x y = fadd x (fneg y)"

section \<open>JavaScript strings\<close>

text \<open>
  A string is a list of code units; the model covers the code units up to \<open>255\<close>
  (ISO-8859-1), on which \<^verbatim>\<open>toLowerCase\<close> maps each unit by itself. An optional string
  is falsy when it is \<^verbatim>\<open>undefined\<close> or empty.
\<close>

definition truthy :: "string option \<Rightarrow> bool" where
  "truthy a = (case a of None \<Rightarrow> False | Some s \<Rightarrow> s \<noteq> [])"

text \<open>\<^verbatim>\<open>a || b\<close> on optional strings, and \<^verbatim>\<open>a || 'literal'\<close>.\<close>

definition orElse :: "string option \<Rightarrow> string option \<Rightarrow> string option" where
  "orElse a b = (if truthy a then a else b)"

definition orDefault :: "string option \<Rightarrow> string \<Rightarrow> string" where
  "orDefault a d = (case a of None \<Rightarrow> d | Some s \<Rightarrow> if s = [] then d else s)"

text \<open>An optional string inside a template literal: \<^verbatim>\<open>`${a}`\<close>.\<close>

definition template :: "string option \<Rightarrow> string" where
  "template a = (case a of None \<Rightarrow> ''undefined'' | Some s \<Rightarrow> s)"

definition lowerChar :: "char \<Rightarrow> char" where
  "lowerChar c = (let n = (of_char c :: nat)
     in if (65 \<le> n \<and> n \<le> 90) \<or> (192 \<le> n \<and> n \<le> 222 \<and> n \<noteq> 215)
        then char_of (n + 32) else c)"

definition toLowerCase :: "string \<Rightarrow> string" where
  "toLowerCase s = map lowerChar s"

text \<open>
  \<^verbatim>\<open>s.includes(q)\<close>: \<open>q\<close> occurs in \<open>s\<close> as a contiguous run (\<open>includes\<close> is a
  keyword of the theory language, hence the longer name).
\<close>

fun includesStr :: "string \<Rightarrow> string \<Rightarrow> bool" where
  "includesStr [] q = (q = [])"
| "includesStr (c # s) q = (take (length q) (c # s) = q \<or> includesStr s q)"

text \<open>The decimal digits of an integer, as \<^verbatim>\<open>`${Date.now()}`\<close> prints them.\<close>

function showDigits :: "int \<Rightarrow> string" where
  "showDigits n = (if n < 10 then [char_of (48 + n)]
     else showDigits (n div 10) @ [char_of (48 + n mod 10)])"
  by pat_completeness auto
termination
  by (relation "measure nat") auto

declare showDigits.simps [simp del]

definition showInt :: "int \<Rightarrow> string" where
  "showInt i = (if i < 0 then CHR ''-'' # showDigits (- i) else showDigits i)"

subsection \<open>\<^verbatim>\<open>parseFloat\<close>\<close>

text \<open>
  The global \<^verbatim>\<open>parseFloat\<close> of ECMAScript: leading white space is dropped, the longest
  prefix of the rest that is a \<^verbatim>\<open>StrDecimalLiteral\<close> (an optional sign, then
  \<^verbatim>\<open>Infinity\<close> or digits with an optional fraction and an optional exponent) is
  converted, and the result is \<^verbatim>\<open>NaN\<close> when no prefix is one.
\<close>

definition isWhiteSpace :: "char \<Rightarrow> bool" where
  "isWhiteSpace c = ((of_char c :: nat) \<in> {9, 10, 11, 12, 13, 32, 160})"

definition isDigit :: "char \<Rightarrow> bool" where
  "isDigit c = (48 \<le> (of_char c :: nat) \<and> (of_char c :: nat) \<le> 57)"

definition digitsValue :: "string \<Rightarrow> int" where
  "digitsValue ds = foldl (\<lambda>v c. 10 * v + (of_char c - 48)) 0 ds"

definition pow10 :: "int \<Rightarrow> rat" where
  "pow10 k = (if 0 \<le> k then 10 ^ nat k else 1 / 10 ^ nat (- k))"

text \<open>
  The value of the \<^verbatim>\<open>ExponentPart\<close> a string starts with; \<open>0\<close> when it starts with
  none (an \<^verbatim>\<open>e\<close> that no digit follows is not part of the literal).
\<close>

definition exponentPart :: "string \<Rightarrow> int" where
  "exponentPart s = (case s of [] \<Rightarrow> 0 | c # r \<Rightarrow>
     if c \<noteq> CHR ''e'' \<and> c \<noteq> CHR ''E'' then 0
     else (case r of [] \<Rightarrow> 0 | d # r' \<Rightarrow>
       if d = CHR ''-'' then - digitsValue (takeWhile isDigit r')
       else if d = CHR ''+'' then digitsValue (takeWhile isDigit r')
       else digitsValue (takeWhile isDigit r)))"

definition unsignedLiteral :: "string \<Rightarrow> number option" where
  "unsignedLiteral s =
     (if take 8 s = ''Infinity'' then Some PInf
      else let ip = takeWhile isDigit s; r1 = dropWhile isDigit s in
        (case r1 of
           [] \<Rightarrow> if ip = [] then None else Some (round64 (of_int (digitsValue ip)))
         | c # r2 \<Rightarrow>
             if c = CHR ''.'' then
               (let fp = takeWhile isDigit r2; r3 = dropWhile isDigit r2 in
                if ip = [] \<and> fp = [] then None
                else Some (round64 (of_int (digitsValue (ip @ fp))
                       * pow10 (exponentPart r3 - int (length fp)))))
             else if ip = [] then None
             else Some (round64 (of_int (digitsValue ip) * pow10 (exponentPart r1)))))"

definition parseFloat :: "string \<Rightarrow> number" where
  "parseFloat s = (case dropWhile isWhiteSpace s of
       [] \<Rightarrow> NaN
     | c # r \<Rightarrow>
         if c = CHR ''-'' then (case unsignedLiteral r of None \<Rightarrow> NaN | Some v \<Rightarrow> fneg v)
         else if c = CHR ''+'' then (case unsignedLiteral r of None \<Rightarrow> NaN | Some v \<Rightarrow> v)
         else (case unsignedLiteral (c # r) of None \<Rightarrow> NaN | Some v \<Rightarrow> v))"

text \<open>
  Three predicates to state what \<open>parseFloat\<close> returns: a string is minus-signed when
  its first character after the leading white space is \<^verbatim>\<open>-\<close>; it starts like a
  literal when that character is a digit, a sign, a dot or the \<^verbatim>\<open>I\<close> of
  \<^verbatim>\<open>Infinity\<close>; and a number is non-negative when it is a finite value from \<open>0\<close> up
  or \<^verbatim>\<open>Infinity\<close>.
\<close>

definition startsLiteral :: "string \<Rightarrow> bool" where
  "startsLiteral s =
     (case dropWhile isWhiteSpace s of
        [] \<Rightarrow> False
      | c # r \<Rightarrow> isDigit c \<or> c = CHR ''+'' \<or> c = CHR ''-'' \<or> c = CHR ''.'' \<or>
                 c = CHR ''I'')"

definition minusSigned :: "string \<Rightarrow> bool" where
  "minusSigned s = (case dropWhile isWhiteSpace s of [] \<Rightarrow> False | c # r \<Rightarrow> c = CHR ''-'')"

fun nonNegative :: "number \<Rightarrow> bool" where
  "nonNegative (Fin q) = (0 \<le> q)"
| "nonNegative PInf = True"
| "nonNegative NInf = False"
| "nonNegative NaN = False"

section \<open>The data model of \<^verbatim>\<open>services/transactionService.ts\<close>\<close>

datatype Status = APPROVED | PENDING | DECLINED | REFUNDED | CANCELLED

text \<open>
  The interface \<^verbatim>\<open>Transaction\<close>. Optional fields (\<^verbatim>\<open>customerName?: string\<close>) are
  options. The fields \<^verbatim>\<open>id\<close> and \<^verbatim>\<open>type\<close> carry a prime, since \<open>id\<close> is the identity
  function of HOL.
\<close>

record Transaction =
  id' :: string
  amount :: number
  currency :: string
  status :: Status
  paymentMethod :: string
  customerName :: "string option"
  customerEmail :: "string option"
  createdDate :: string
  description :: "string option"
  provider :: "string option"
  providerTransactionId :: "string option"
  type' :: "string option"

text \<open>The interface \<^verbatim>\<open>TransactionMetrics\<close>; the count is an array length.\<close>

record TransactionMetrics =
  totalApproved :: number
  totalPending :: number
  totalDeclined :: number
  totalRefunded :: number
  totalTransactions :: nat
  totalRevenue :: number

text \<open>
  The interface \<^verbatim>\<open>TransactionFilters\<close>. The status field is \<open>fstatus\<close>, since
  \<open>status\<close> is the field of \<open>Transaction\<close>. A day count is an integer (the dashboard passes
  \<^verbatim>\<open>parseInt(timePeriod)\<close>).
\<close>

record TransactionFilters =
  fstatus :: "string option"
  dateRange :: "int option"
  searchQuery :: "string option"
  limit :: "int option"
  offset :: "int option"

text \<open>The union type of \<open>status\<close> as the strings it stands for.\<close>

fun statusName :: "Status \<Rightarrow> string" where
  "statusName APPROVED = ''APPROVED''"
| "statusName PENDING = ''PENDING''"
| "statusName DECLINED = ''DECLINED''"
| "statusName REFUNDED = ''REFUNDED''"
| "statusName CANCELLED = ''CANCELLED''"

section \<open>The platform: clock and dates\<close>

text \<open>
  What the code reads from its host: the clock, as the time value of \<^verbatim>\<open>Date.now()\<close> and
  \<^verbatim>\<open>new Date()\<close> (milliseconds since the epoch) and as the string of
  \<^verbatim>\<open>new Date().toISOString()\<close>, and the time value of \<^verbatim>\<open>new Date(s)\<close> for a string,
  \<open>None\<close> for an invalid date. One call reads one instant. The host's time zone is
  \<^verbatim>\<open>LocalTZA\<close> of ECMAScript: the offset of local time from UTC, in milliseconds, at a
  UTC time value (flag \<open>True\<close>) or at a local time value (flag \<open>False\<close>); it changes
  where daylight saving time starts or ends.
\<close>

record Platform =
  now :: int
  nowISO :: string
  parseDate :: "string \<Rightarrow> int option"
  localTZA :: "int \<Rightarrow> bool \<Rightarrow> int"

definition msPerDay :: int where
  "msPerDay = 86400000"

text \<open>
  A time value more than \<open>100,000,000\<close> days from the epoch is no date: \<^verbatim>\<open>TimeClip\<close>
  of ECMAScript.
\<close>

definition timeClip :: "int \<Rightarrow> int option" where
  "timeClip t = (if \<bar>t\<bar> \<le> 8640000000000000 then Some t else None)"

text \<open>\<^verbatim>\<open>LocalTime\<close> and \<^verbatim>\<open>UTC\<close> of ECMAScript, between UTC and local time values.\<close>

definition localTime :: "Platform \<Rightarrow> int \<Rightarrow> int" where
  "localTime pl t = t + localTZA pl t True"

definition utcTime :: "Platform \<Rightarrow> int \<Rightarrow> int" where
  "utcTime pl t = t - localTZA pl t False"

text \<open>
  \<^verbatim>\<open>cutoffDate.setDate(cutoffDate.getDate() - n)\<close> on \<^verbatim>\<open>new Date()\<close>: \<^verbatim>\<open>getDate\<close> reads
  the day of the month of the local time, and \<^verbatim>\<open>setDate\<close> builds the local time with
  that day of the month less \<open>n\<close> and the same time of day (\<^verbatim>\<open>MakeDay\<close> and
  \<^verbatim>\<open>MakeDate\<close> count days of \<open>msPerDay\<close> milliseconds from the first of the month, so
  the local time value goes back by \<open>n\<close> days), converts it to UTC and clips it.
\<close>

definition cutoffDate :: "Platform \<Rightarrow> int \<Rightarrow> int option" where
  "cutoffDate pl n = timeClip (utcTime pl (localTime pl (now pl) - n * msPerDay))"

text \<open>\<^verbatim>\<open>a >= b\<close> on two dates: false as soon as one is invalid.\<close>

definition dateGe :: "int option \<Rightarrow> int option \<Rightarrow> bool" where
  "dateGe a b = (case a of None \<Rightarrow> False
     | Some x \<Rightarrow> (case b of None \<Rightarrow> False | Some y \<Rightarrow> y \<le> x))"

section \<open>Provider records\<close>

text \<open>
  The payloads of the commerce SDK are typed \<^verbatim>\<open>any\<close>; the records below hold the fields
  the code reads, each optional. Field names carry the initial of their record where
  two records share a name (\<^verbatim>\<open>_id\<close>, \<^verbatim>\<open>amount\<close>, \<^verbatim>\<open>currency\<close>, \<^verbatim>\<open>status\<close>).
\<close>

record Money =
  m_amount :: "string option"
  m_currency :: "string option"

record RegularPaymentDetails =
  d_status :: "string option"
  d_paymentMethod :: "string option"
  d_providerTransactionId :: "string option"

record Payment =
  p_id :: "string option"
  p_amount :: "Money option"
  regularPaymentDetails :: "RegularPaymentDetails option"
  p_createdDate :: "string option"

record RefundSummary =
  refunded :: "Money option"

record RefundTransaction =
  providerRefundId :: "string option"

record Refund =
  r_id :: "string option"
  summary :: "RefundSummary option"
  r_createdDate :: "string option"
  r_transactions :: "RefundTransaction list option"

record ContactDetails =
  c_firstName :: "string option"
  c_lastName :: "string option"

record BillingInfo =
  contactDetails :: "ContactDetails option"

record BuyerInfo =
  email :: "string option"
  b_firstName :: "string option"
  b_lastName :: "string option"

record Order =
  o_id :: "string option"
  o_number :: "string option"
  o_currency :: "string option"
  billingInfo :: "BillingInfo option"
  buyerInfo :: "BuyerInfo option"

section \<open>The record transformer\<close>

text \<open>\<^verbatim>\<open>getCustomerNameFromOrder\<close>; the order is absent when no order matched.\<close>

definition getCustomerNameFromOrder :: "Order option \<Rightarrow> string" where
  "getCustomerNameFromOrder order =
     (let billing =
        (case Option.bind (Option.bind order billingInfo) contactDetails of
           None \<Rightarrow> None
         | Some contact \<Rightarrow>
             if truthy (c_firstName contact) \<and> truthy (c_lastName contact)
             then Some (template (c_firstName contact) @ '' '' @ template (c_lastName contact))
             else None);
          buyer = Option.bind order buyerInfo
      in case billing of
           Some name \<Rightarrow> name
         | None \<Rightarrow>
             if truthy (Option.bind buyer b_firstName) \<and> truthy (Option.bind buyer b_lastName)
             then template (Option.bind buyer b_firstName) @ '' ''
                    @ template (Option.bind buyer b_lastName)
             else ''Customer'')"

text \<open>
  The block \<^emph>\<open>Determine payment status\<close> of \<^verbatim>\<open>transformPaymentToTransaction\<close>: the
  variable starts as \<^verbatim>\<open>'PENDING'\<close> and the chain of comparisons runs only on a truthy
  provider status, \<^verbatim>\<open>payment.regularPaymentDetails?.status\<close>.
\<close>

definition providerStatus :: "Payment \<Rightarrow> string option" where
  "providerStatus payment = Option.bind (regularPaymentDetails payment) d_status"

definition paymentStatus :: "Payment \<Rightarrow> Status" where
  "paymentStatus payment =
     (case providerStatus payment of
        None \<Rightarrow> PENDING
      | Some paymentStatus \<Rightarrow>
          if paymentStatus = [] then PENDING
          else if paymentStatus = ''APPROVED'' \<or> paymentStatus = ''AUTHORIZED'' then APPROVED
          else if paymentStatus = ''DECLINED'' \<or> paymentStatus = ''CANCELED'' then DECLINED
          else if paymentStatus = ''REFUNDED'' \<or> paymentStatus = ''PARTIALLY_REFUNDED''
            then REFUNDED
          else if paymentStatus = ''PENDING'' \<or> paymentStatus = ''PENDING_MERCHANT''
            then PENDING
          else PENDING)"

definition orderLabel :: "Order option \<Rightarrow> string" where
  "orderLabel order =
     template (orElse (Option.bind order o_number) (Option.bind order o_id))"

definition transformPaymentToTransaction ::
  "Platform \<Rightarrow> Payment \<Rightarrow> Order option \<Rightarrow> Transaction" where
  "transformPaymentToTransaction pl payment order =
     \<lparr>id' = orDefault (p_id payment) (''TXN-'' @ showInt (now pl)),
      amount = parseFloat (orDefault (Option.bind (p_amount payment) m_amount) ''0''),
      currency = orDefault (orElse (Option.bind (p_amount payment) m_currency)
                   (Option.bind order o_currency)) ''EUR'',
      status = paymentStatus payment,
      paymentMethod =
        orDefault (Option.bind (regularPaymentDetails payment) d_paymentMethod) ''Unknown'',
      customerName = Some (getCustomerNameFromOrder order),
      customerEmail =
        Some (orDefault (Option.bind (Option.bind order buyerInfo) email)
          ''customer@example.com''),
      createdDate = orDefault (p_createdDate payment) (nowISO pl),
      description = Some (''Order #'' @ orderLabel order @ '' payment''),
      provider = Option.bind (regularPaymentDetails payment) d_paymentMethod,
      providerTransactionId =
        Option.bind (regularPaymentDetails payment) d_providerTransactionId,
      type' = Some ''PAYMENT''\<rparr>"

definition transformRefundToTransaction ::
  "Platform \<Rightarrow> Refund \<Rightarrow> Order option \<Rightarrow> Transaction" where
  "transformRefundToTransaction pl refund order =
     \<lparr>id' = orDefault (r_id refund) (''REF-'' @ showInt (now pl)),
      amount = parseFloat
        (orDefault (Option.bind (Option.bind (summary refund) refunded) m_amount) ''0''),
      currency = orDefault (orElse (Option.bind (Option.bind (summary refund) refunded) m_currency)
                   (Option.bind order o_currency)) ''EUR'',
      status = REFUNDED,
      paymentMethod = ''Refund'',
      customerName = Some (getCustomerNameFromOrder order),
      customerEmail =
        Some (orDefault (Option.bind (Option.bind order buyerInfo) email)
          ''customer@example.com''),
      createdDate = orDefault (r_createdDate refund) (nowISO pl),
      description = Some (''Order #'' @ orderLabel order @ '' refund''),
      provider = Some ''Refund'',
      providerTransactionId =
        (case r_transactions refund of
           None \<Rightarrow> None
         | Some ts \<Rightarrow> (case ts of [] \<Rightarrow> None | t # _ \<Rightarrow> providerRefundId t)),
      type' = Some ''REFUND''\<rparr>"

section \<open>\<^verbatim>\<open>calculateMetrics\<close>\<close>

text \<open>The body of the \<^verbatim>\<open>forEach\<close> callback: one \<^verbatim>\<open>switch\<close> on the status.\<close>

definition accumulate :: "TransactionMetrics \<Rightarrow> Transaction \<Rightarrow> TransactionMetrics" where
  "accumulate metrics transaction =
     (case status transaction of
        APPROVED \<Rightarrow> metrics
          \<lparr>totalApproved := fadd (totalApproved metrics) (amount transaction),
           totalRevenue := fadd (totalRevenue metrics) (amount transaction)\<rparr>
      | PENDING \<Rightarrow> metrics
          \<lparr>totalPending := fadd (totalPending metrics) (amount transaction)\<rparr>
      | DECLINED \<Rightarrow> metrics
          \<lparr>totalDeclined := fadd (totalDeclined metrics) (amount transaction)\<rparr>
      | REFUNDED \<Rightarrow> metrics
          \<lparr>totalRefunded := fadd (totalRefunded metrics) (amount transaction),
           totalRevenue := fsub (totalRevenue metrics) (amount transaction)\<rparr>
      | CANCELLED \<Rightarrow> metrics)"

definition initialMetrics :: "Transaction list \<Rightarrow> TransactionMetrics" where
  "initialMetrics transactions =
     \<lparr>totalApproved = Fin 0, totalPending = Fin 0, totalDeclined = Fin 0,
      totalRefunded = Fin 0, totalTransactions = length transactions,
      totalRevenue = Fin 0\<rparr>"

definition calculateMetrics :: "Transaction list \<Rightarrow> TransactionMetrics" where
  "calculateMetrics transactions =
     foldl accumulate (initialMetrics transactions) transactions"

section \<open>\<^verbatim>\<open>getMockTransactions\<close>\<close>

definition mockTransaction ::
  "string \<Rightarrow> number \<Rightarrow> Status \<Rightarrow> string \<Rightarrow> string \<Rightarrow> string \<Rightarrow> string \<Rightarrow> string
     \<Rightarrow> Transaction" where
  "mockTransaction i a s pm cn ce cd ds =
     \<lparr>id' = i, amount = a, currency = ''EUR'', status = s, paymentMethod = pm,
      customerName = Some cn, customerEmail = Some ce, createdDate = cd,
      description = Some ds, provider = None, providerTransactionId = None,
      type' = None\<rparr>"

definition getMockTransactions :: "Transaction list" where
  "getMockTransactions =
     [mockTransaction ''TXN-001'' (Fin 250) APPROVED ''Credit Card'' ''John Doe''
        ''john.doe@example.com'' ''2025-01-15T10:30:00Z'' ''Invoice #INV-001 payment'',
      mockTransaction ''TXN-002'' (Fin (361 / 2)) APPROVED ''PayPal'' ''Jane Smith''
        ''jane.smith@example.com'' ''2025-01-14T14:22:00Z'' ''Invoice #INV-002 payment'',
      mockTransaction ''TXN-003'' (Fin (1283 / 4)) PENDING ''Bank Transfer'' ''Mike Johnson''
        ''mike.johnson@example.com'' ''2025-01-13T09:45:00Z'' ''Invoice #INV-003 payment'',
      mockTransaction ''TXN-004'' (Fin 95) DECLINED ''Credit Card'' ''Sarah Wilson''
        ''sarah.wilson@example.com'' ''2025-01-12T16:10:00Z'' ''Invoice #INV-004 payment'',
      mockTransaction ''TXN-005'' (Fin (1801 / 4)) REFUNDED ''Credit Card'' ''David Brown''
        ''david.brown@example.com'' ''2025-01-11T11:30:00Z''
        ''Invoice #INV-005 payment refund'']"

section \<open>\<^verbatim>\<open>applyFilters\<close>\<close>

text \<open>The guards and the predicates of the three \<^verbatim>\<open>filter\<close> calls.\<close>

definition statusActive :: "TransactionFilters \<Rightarrow> bool" where
  "statusActive f = (truthy (fstatus f) \<and> fstatus f \<noteq> Some ''all'')"

definition statusMatches :: "TransactionFilters \<Rightarrow> Transaction \<Rightarrow> bool" where
  "statusMatches f transaction =
     (Some (toLowerCase (statusName (status transaction))) = map_option toLowerCase (fstatus f))"

text \<open>\<^verbatim>\<open>field?.toLowerCase().includes(query)\<close>: \<^verbatim>\<open>undefined\<close>, so falsy, on an absent field.\<close>

definition optIncludes :: "string option \<Rightarrow> string \<Rightarrow> bool" where
  "optIncludes field query =
     (case field of None \<Rightarrow> False | Some s \<Rightarrow> includesStr (toLowerCase s) query)"

definition searchMatches :: "string \<Rightarrow> Transaction \<Rightarrow> bool" where
  "searchMatches query transaction =
     (optIncludes (customerName transaction) query \<or>
      optIncludes (customerEmail transaction) query \<or>
      includesStr (toLowerCase (id' transaction)) query \<or>
      optIncludes (description transaction) query)"

definition dateActive :: "TransactionFilters \<Rightarrow> bool" where
  "dateActive f = (case dateRange f of None \<Rightarrow> False | Some n \<Rightarrow> n \<noteq> 0)"

definition dateMatches :: "Platform \<Rightarrow> int \<Rightarrow> Transaction \<Rightarrow> bool" where
  "dateMatches pl n transaction =
     dateGe (parseDate pl (createdDate transaction)) (cutoffDate pl n)"

text \<open>The contents of the array \<^verbatim>\<open>applyFilters\<close> returns.\<close>

definition applyFilters ::
  "Platform \<Rightarrow> Transaction list \<Rightarrow> TransactionFilters option \<Rightarrow> Transaction list" where
  "applyFilters pl txs filters =
     (case filters of
        None \<Rightarrow> txs
      | Some f \<Rightarrow>
          (let filtered = txs;
               filtered = (if statusActive f then filter (statusMatches f) filtered
                           else filtered);
               filtered = (if truthy (searchQuery f)
                           then filter (searchMatches (toLowerCase (template (searchQuery f))))
                                  filtered
                           else filtered);
               filtered = (case dateRange f of
                             None \<Rightarrow> filtered
                           | Some n \<Rightarrow> if n \<noteq> 0 then filter (dateMatches pl n) filtered
                                      else filtered)
           in filtered))"

text \<open>
  The same function on a store of arrays, to tell the arrays it creates from the one it
  is given: a reference is an index into the store, \<^verbatim>\<open>[...transactions]\<close> and every
  \<^verbatim>\<open>filter\<close> allocate a new array, and nothing writes to an array that exists.
\<close>

type_synonym Store = "Transaction list list"

definition alloc :: "Store \<Rightarrow> Transaction list \<Rightarrow> Store \<times> nat" where
  "alloc h xs = (h @ [xs], length h)"

definition filterRef ::
  "bool \<Rightarrow> (Transaction \<Rightarrow> bool) \<Rightarrow> Store \<times> nat \<Rightarrow> Store \<times> nat" where
  "filterRef guard keep st =
     (case st of (h, filtered) \<Rightarrow>
        if guard then alloc h (filter keep (h ! filtered)) else (h, filtered))"

definition applyFiltersRef ::
  "Platform \<Rightarrow> Store \<Rightarrow> nat \<Rightarrow> TransactionFilters option \<Rightarrow> Store \<times> nat" where
  "applyFiltersRef pl h txs filters =
     (case filters of
        None \<Rightarrow> (h, txs)
      | Some f \<Rightarrow>
          filterRef (dateActive f)
            (dateMatches pl (case dateRange f of None \<Rightarrow> 0 | Some n \<Rightarrow> n))
            (filterRef (truthy (searchQuery f))
               (searchMatches (toLowerCase (template (searchQuery f))))
               (filterRef (statusActive f) (statusMatches f)
                  (alloc h (h ! txs)))))"

section \<open>\<^verbatim>\<open>fetchTransactions\<close> and \<^verbatim>\<open>refreshTransactions\<close>\<close>

text \<open>
  A thrown value, with its message. The SDK is what \<^verbatim>\<open>import('@wix/ecom')\<close> resolves
  to: the outcome of \<^verbatim>\<open>orders.searchOrders({cursorPaging: {limit: 10}})\<close> and, for a list
  of order ids, the outcome of
  \<^verbatim>\<open>orderTransactions.listTransactionsForMultipleOrders\<close>; \<open>Inl\<close> is a rejected promise.
\<close>

datatype error = Error string

record OrdersResult =
  orders :: "Order list option"

record OrderTransactions =
  orderId :: "string option"
  payments :: "Payment list option"
  refunds :: "Refund list option"

record TransactionsResult =
  orderTransactions :: "OrderTransactions list option"

record Sdk =
  searchOrders :: "error + OrdersResult"
  listTransactionsForMultipleOrders :: "string list \<Rightarrow> error + TransactionsResult"

record FetchResult =
  data :: "Transaction list"
  usingMockData :: bool

text \<open>The status test that guards both \<^verbatim>\<open>push\<close> calls.\<close>

definition passesStatus :: "TransactionFilters option \<Rightarrow> Transaction \<Rightarrow> bool" where
  "passesStatus filters txData =
     (case filters of
        None \<Rightarrow> True
      | Some f \<Rightarrow>
          \<not> truthy (fstatus f) \<or> fstatus f = Some ''all'' \<or>
          Some (toLowerCase (statusName (status txData))) = map_option toLowerCase (fstatus f))"

definition listOrEmpty :: "'a list option \<Rightarrow> 'a list" where
  "listOrEmpty xs = (case xs of None \<Rightarrow> [] | Some ys \<Rightarrow> ys)"

text \<open>One round of the outer \<^verbatim>\<open>for\<close> loop: the payments of an order, then its refunds.\<close>

definition transactionsOf ::
  "Platform \<Rightarrow> TransactionFilters option \<Rightarrow> Order list \<Rightarrow> OrderTransactions
     \<Rightarrow> Transaction list" where
  "transactionsOf pl filters os orderTx =
     (let order = find (\<lambda>candidate. o_id candidate = orderId orderTx) os
      in filter (passesStatus filters)
           (map (\<lambda>payment. transformPaymentToTransaction pl payment order)
              (listOrEmpty (payments orderTx)))
         @ filter (passesStatus filters)
           (map (\<lambda>refund. transformRefundToTransaction pl refund order)
              (listOrEmpty (refunds orderTx))))"

text \<open>The inner \<^verbatim>\<open>try\<close> block: every \<^verbatim>\<open>throw\<close> and every rejection is an \<open>Inl\<close>.\<close>

definition fetchFromSdk ::
  "Platform \<Rightarrow> error + Sdk \<Rightarrow> TransactionFilters option \<Rightarrow> error + FetchResult" where
  "fetchFromSdk pl sdkImport filters =
     (case sdkImport of
        Inl importError \<Rightarrow> Inl importError
      | Inr sdk \<Rightarrow>
          (case searchOrders sdk of
             Inl basicError \<Rightarrow> Inl basicError
           | Inr ordersResult \<Rightarrow>
               (case orders ordersResult of
                  None \<Rightarrow> Inl (Error ''No orders found'')
                | Some os \<Rightarrow>
                    if 0 < length os then
                      (let orderIds = List.map_filter o_id os
                       in case listTransactionsForMultipleOrders sdk orderIds of
                            Inl sdkError \<Rightarrow> Inl sdkError
                          | Inr transactionsResult \<Rightarrow>
                              Inr \<lparr>data = concat (map (transactionsOf pl filters os)
                                     (listOrEmpty (orderTransactions transactionsResult))),
                                   usingMockData = False\<rparr>)
                    else Inl (Error ''No orders found''))))"

text \<open>The outer \<^verbatim>\<open>catch\<close> turns every failure into the synthetic dataset.\<close>

definition fetchTransactions ::
  "Platform \<Rightarrow> error + Sdk \<Rightarrow> TransactionFilters option \<Rightarrow> error + FetchResult" where
  "fetchTransactions pl sdkImport filters =
     (case fetchFromSdk pl sdkImport filters of
        Inl e \<Rightarrow> Inr \<lparr>data = getMockTransactions, usingMockData = True\<rparr>
      | Inr result \<Rightarrow> Inr result)"

definition refreshTransactions :: "Platform \<Rightarrow> error + Sdk \<Rightarrow> error + FetchResult" where
  "refreshTransactions pl sdkImport =
     (case fetchTransactions pl sdkImport
             (Some \<lparr>fstatus = None, dateRange = Some 7, searchQuery = None, limit = None,
                    offset = None\<rparr>) of
        Inl e \<Rightarrow> Inr \<lparr>data = getMockTransactions, usingMockData = True\<rparr>
      | Inr result \<Rightarrow> Inr result)"

text \<open>
  The specification's reading of a refresh, for comparison with the code:
  \<^verbatim>\<open>fetchTransactions\<close> without filters, constrained to the transactions created in the
  last \<open>7\<close> days.
\<close>

definition fetchLast7Days_spec :: "Platform \<Rightarrow> error + Sdk \<Rightarrow> error + FetchResult" where
  "fetchLast7Days_spec pl sdkImport =
     (case fetchTransactions pl sdkImport None of
        Inl e \<Rightarrow> Inl e
      | Inr result \<Rightarrow> Inr (result\<lparr>data := filter (dateMatches pl 7) (data result)\<rparr>))"

section \<open>Exact arithmetic\<close>

text \<open>
  An addition is exact when both operands are finite and the sum is a double, so that
  rounding changes nothing. A pass of \<open>calculateMetrics\<close> is exact when every addition
  and subtraction it performs is.
\<close>

definition exactAdd :: "number \<Rightarrow> number \<Rightarrow> bool" where
  "exactAdd x y =
     (case x of
        Fin a \<Rightarrow> (case y of Fin b \<Rightarrow> round64 (a + b) = Fin (a + b) | _ \<Rightarrow> False)
      | _ \<Rightarrow> False)"

definition exactStep :: "TransactionMetrics \<Rightarrow> Transaction \<Rightarrow> bool" where
  "exactStep metrics transaction =
     (case status transaction of
        APPROVED \<Rightarrow> exactAdd (totalApproved metrics) (amount transaction) \<and>
                    exactAdd (totalRevenue metrics) (amount transaction)
      | PENDING \<Rightarrow> exactAdd (totalPending metrics) (amount transaction)
      | DECLINED \<Rightarrow> exactAdd (totalDeclined metrics) (amount transaction)
      | REFUNDED \<Rightarrow> exactAdd (totalRefunded metrics) (amount transaction) \<and>
                    exactAdd (totalRevenue metrics) (fneg (amount transaction))
      | CANCELLED \<Rightarrow> True)"

fun exactFrom :: "TransactionMetrics \<Rightarrow> Transaction list \<Rightarrow> bool" where
  "exactFrom metrics [] = True"
| "exactFrom metrics (transaction # rest) =
     (exactStep metrics transaction \<and> exactFrom (accumulate metrics transaction) rest)"

definition exactPass :: "Transaction list \<Rightarrow> bool" where
  "exactPass txs = exactFrom (initialMetrics txs) txs"

text \<open>The sum, in exact arithmetic, of the finite amounts of the transactions in a status.\<close>

definition valueOf :: "number \<Rightarrow> rat" where
  "valueOf x = (case x of Fin q \<Rightarrow> q | _ \<Rightarrow> 0)"

definition total :: "Status \<Rightarrow> Transaction list \<Rightarrow> rat" where
  "total s txs = sum_list (map (\<lambda>t. valueOf (amount t)) (filter (\<lambda>t. status t = s) txs))"

text \<open>The doubles that the literals \<^verbatim>\<open>0.1\<close>, \<^verbatim>\<open>0.2\<close> and \<^verbatim>\<open>0.3\<close> denote.\<close>

definition tenth :: number where
  "tenth = Fin (3602879701896397 / 36028797018963968)"

definition fifth :: number where
  "fifth = Fin (3602879701896397 / 18014398509481984)"

definition threeTenths :: number where
  "threeTenths = Fin (5404319552844595 / 18014398509481984)"

section \<open>Example inputs\<close>

text \<open>
  A host in the UTC time zone whose clock reads 3 November 2025, 00:00 UTC, and which
  knows two date strings: one a day and a half before that instant, one \<open>32.5\<close> days
  before it.
\<close>

definition examplePlatform :: Platform where
  "examplePlatform =
     \<lparr>now = 1762128000000, nowISO = ''2025-11-03T00:00:00.000Z'',
      parseDate = (\<lambda>s. if s = ''2025-11-01T12:00:00Z'' then Some 1761998400000
                        else if s = ''2025-10-01T12:00:00Z'' then Some 1759320000000
                        else None),
      localTZA = (\<lambda>t isUTC. 0)\<rparr>"


definition examplePayment :: "string \<Rightarrow> string \<Rightarrow> string \<Rightarrow> Payment" where
  "examplePayment statusString amountString created =
     \<lparr>p_id = Some ''pay-1'',
      p_amount = Some \<lparr>m_amount = Some amountString, m_currency = Some ''EUR''\<rparr>,
      regularPaymentDetails =
        Some \<lparr>d_status = Some statusString, d_paymentMethod = Some ''creditCard'',
              d_providerTransactionId = Some ''ptx-1''\<rparr>,
      p_createdDate = Some created\<rparr>"

definition exampleRefund :: "string \<Rightarrow> Refund" where
  "exampleRefund amountString =
     \<lparr>r_id = Some ''ref-1'',
      summary = Some \<lparr>refunded = Some \<lparr>m_amount = Some amountString, m_currency = None\<rparr>\<rparr>,
      r_createdDate = Some ''2025-11-01T12:00:00Z'',
      r_transactions = Some [\<lparr>providerRefundId = Some ''prf-1''\<rparr>]\<rparr>"

definition exampleOrder :: Order where
  "exampleOrder =
     \<lparr>o_id = Some ''order-1'', o_number = Some ''1001'', o_currency = Some ''USD'',
      billingInfo = None,
      buyerInfo = Some \<lparr>email = Some ''ada@example.com'', b_firstName = Some ''Ada'',
                        b_lastName = Some ''Lovelace''\<rparr>\<rparr>"

definition exampleSdk :: "Payment list \<Rightarrow> Sdk" where
  "exampleSdk ps =
     \<lparr>searchOrders = Inr \<lparr>orders = Some [exampleOrder]\<rparr>,
      listTransactionsForMultipleOrders =
        (\<lambda>ids. Inr \<lparr>orderTransactions =
                 Some [\<lparr>orderId = Some ''order-1'', payments = Some ps, refunds = None\<rparr>]\<rparr>)\<rparr>"

definition exampleTransaction :: "Status \<Rightarrow> number \<Rightarrow> string \<Rightarrow> Transaction" where
  "exampleTransaction s a created =
     \<lparr>id' = ''TXN-1'', amount = a, currency = ''EUR'', status = s,
      paymentMethod = ''Credit Card'', customerName = Some ''Ada Lovelace'',
      customerEmail = None, createdDate = created, description = None, provider = None,
      providerTransactionId = None, type' = Some ''PAYMENT''\<rparr>"

definition noFilters :: TransactionFilters where
  "noFilters =
     \<lparr>fstatus = None, dateRange = None, searchQuery = None, limit = None, offset = None\<rparr>"

text \<open>
  Four transactions whose amounts add up without rounding, one of them cancelled, and
  a payment record without any field.
\<close>

definition exampleLedger :: "Transaction list" where
  "exampleLedger =
     [exampleTransaction APPROVED (Fin 10) ''2025-11-01T12:00:00Z'',
      exampleTransaction REFUNDED (Fin (5 / 2)) ''2025-11-01T12:00:00Z'',
      exampleTransaction PENDING (Fin 1) ''2025-10-01T12:00:00Z'',
      exampleTransaction CANCELLED (Fin 7) ''2025-10-01T12:00:00Z'']"

definition emptyPayment :: Payment where
  "emptyPayment =
     \<lparr>p_id = None, p_amount = None, regularPaymentDetails = None, p_createdDate = None\<rparr>"

section \<open>Properties of \<^verbatim>\<open>calculateMetrics\<close>\<close>

lemma round64_mock:
  "round64 250 = Fin 250"
  "round64 (861 / 2) = Fin (861 / 2)"
  "round64 (1283 / 4) = Fin (1283 / 4)"
  "round64 95 = Fin 95"
  "round64 (1801 / 4) = Fin (1801 / 4)"
  "round64 (- (79 / 4)) = Fin (- (79 / 4))"
  by code_simp+

text \<open>
  Claim C9. On the five synthetic transactions \<open>calculateMetrics\<close> returns
  \<open>totalApproved = 430.50\<close>, \<open>totalPending = 320.75\<close>, \<open>totalDeclined = 95.00\<close>,
  \<open>totalRefunded = 450.25\<close>, \<open>totalRevenue = -19.75\<close> and \<open>totalTransactions = 5\<close>; every
  sum involved is a double, so no rounding takes place.
\<close>

theorem calculateMetrics_mock:
  "calculateMetrics getMockTransactions =
     \<lparr>totalApproved = Fin (861 / 2), totalPending = Fin (1283 / 4),
      totalDeclined = Fin 95, totalRefunded = Fin (1801 / 4),
      totalTransactions = 5, totalRevenue = Fin (- (79 / 4))\<rparr>"
  by (simp add: calculateMetrics_def getMockTransactions_def initialMetrics_def
      mockTransaction_def accumulate_def fsub_def round64_mock)

text \<open>In exact arithmetic every total is the sum of the amounts in its status.\<close>

lemma exactAdd_fadd:
  assumes "exactAdd x y"
  shows "\<exists>a b. x = Fin a \<and> y = Fin b \<and> fadd x y = Fin (a + b) \<and>
           round64 (a + b) = Fin (a + b)"
  using assms by (auto simp add: exactAdd_def split: number.splits)

lemma total_Nil [simp]: "total s [] = 0"
  by (simp add: total_def)

lemma total_Cons [simp]:
  "total s (t # ts) = (if status t = s then valueOf (amount t) else 0) + total s ts"
  by (simp add: total_def)

lemma foldl_accumulate_exact:
  assumes "exactFrom m txs"
    and "totalApproved m = Fin a" and "totalPending m = Fin p" and "totalDeclined m = Fin d"
    and "totalRefunded m = Fin r" and "totalRevenue m = Fin v"
  shows "foldl accumulate m txs =
     m\<lparr>totalApproved := Fin (a + total APPROVED txs),
       totalPending := Fin (p + total PENDING txs),
       totalDeclined := Fin (d + total DECLINED txs),
       totalRefunded := Fin (r + total REFUNDED txs),
       totalRevenue := Fin (v + total APPROVED txs - total REFUNDED txs)\<rparr>"
  using assms
proof (induction txs arbitrary: m a p d r v)
  case Nil
  then show ?case by simp
next
  case (Cons t ts)
  from Cons.prems(1) have step: "exactStep m t" and rest: "exactFrom (accumulate m t) ts"
    by simp_all
  show ?case
  proof (cases "status t")
    case APPROVED
    from step APPROVED Cons.prems obtain q where q: "amount t = Fin q"
      and acc: "accumulate m t =
        m\<lparr>totalApproved := Fin (a + q), totalRevenue := Fin (v + q)\<rparr>"
      by (auto simp add: exactStep_def accumulate_def dest!: exactAdd_fadd)
    from Cons.IH [OF rest, of "a + q" p d r "v + q"] acc Cons.prems APPROVED q
    show ?thesis by (simp add: valueOf_def algebra_simps)
  next
    case PENDING
    from step PENDING Cons.prems obtain q where q: "amount t = Fin q"
      and acc: "accumulate m t = m\<lparr>totalPending := Fin (p + q)\<rparr>"
      by (auto simp add: exactStep_def accumulate_def dest!: exactAdd_fadd)
    from Cons.IH [OF rest, of a "p + q" d r v] acc Cons.prems PENDING q
    show ?thesis by (simp add: valueOf_def algebra_simps)
  next
    case DECLINED
    from step DECLINED Cons.prems obtain q where q: "amount t = Fin q"
      and acc: "accumulate m t = m\<lparr>totalDeclined := Fin (d + q)\<rparr>"
      by (auto simp add: exactStep_def accumulate_def dest!: exactAdd_fadd)
    from Cons.IH [OF rest, of a p "d + q" r v] acc Cons.prems DECLINED q
    show ?thesis by (simp add: valueOf_def algebra_simps)
  next
    case REFUNDED
    from step REFUNDED Cons.prems obtain q where q: "amount t = Fin q"
      and acc: "accumulate m t =
        m\<lparr>totalRefunded := Fin (r + q), totalRevenue := Fin (v - q)\<rparr>"
      by (auto simp add: exactStep_def accumulate_def fsub_def dest!: exactAdd_fadd)
    from Cons.IH [OF rest, of a p d "r + q" "v - q"] acc Cons.prems REFUNDED q
    show ?thesis by (simp add: valueOf_def algebra_simps)
  next
    case CANCELLED
    then have acc: "accumulate m t = m" by (simp add: accumulate_def)
    from Cons.IH [OF _ Cons.prems(2-6)] rest acc CANCELLED
    show ?thesis by simp
  qed
qed


lemma calculateMetrics_exact:
  assumes "exactPass txs"
  shows "calculateMetrics txs =
     \<lparr>totalApproved = Fin (total APPROVED txs), totalPending = Fin (total PENDING txs),
      totalDeclined = Fin (total DECLINED txs), totalRefunded = Fin (total REFUNDED txs),
      totalTransactions = length txs,
      totalRevenue = Fin (total APPROVED txs - total REFUNDED txs)\<rparr>"
  using foldl_accumulate_exact [of "initialMetrics txs" txs 0 0 0 0 0] assms
  by (simp add: exactPass_def calculateMetrics_def initialMetrics_def)


lemma total_mset:
  assumes "mset xs = mset ys"
  shows "total s xs = total s ys"
proof -
  have "total s zs = sum_mset (image_mset (\<lambda>t. valueOf (amount t))
          (filter_mset (\<lambda>t. status t = s) (mset zs)))" for zs
    by (simp add: total_def flip: sum_mset_sum_list)
  with assms show ?thesis by simp
qed


lemma decimal_literals:
  "parseFloat ''0.1'' = tenth"
  "parseFloat ''0.2'' = fifth"
  "parseFloat ''0.3'' = threeTenths"
  by code_simp+

lemma exactPass_examples:
  "exactPass exampleLedger"
  "exactPass (rev exampleLedger)"
  by code_simp+




text \<open>
  Claim C6, as the code has it. The count of transactions is the same for every
  ordering of a collection, and so are all the metrics when the passes over both
  orderings are exact. (A function of HOL returns the same value each time it is
  applied to the same collection.)
\<close>

theorem calculateMetrics_permutation:
  "(mset xs = mset ys \<longrightarrow>
      totalTransactions (calculateMetrics xs) = totalTransactions (calculateMetrics ys)) \<and>
   (mset xs = mset ys \<and> exactPass xs \<and> exactPass ys \<longrightarrow>
      calculateMetrics xs = calculateMetrics ys)"
proof -
  have "totalTransactions (calculateMetrics zs) = length zs" for zs
  proof -
    have "totalTransactions (foldl accumulate m zs) = totalTransactions m" for m
      by (induction zs arbitrary: m) (auto simp add: accumulate_def split: Status.splits)
    then show ?thesis by (simp add: calculateMetrics_def initialMetrics_def)
  qed
  moreover have "length xs = length ys" if "mset xs = mset ys"
    using that by (rule mset_eq_length)
  moreover have "calculateMetrics xs = calculateMetrics ys"
    if "mset xs = mset ys" "exactPass xs" "exactPass ys"
    using calculateMetrics_exact [OF that(2)] calculateMetrics_exact [OF that(3)]
      total_mset [OF that(1)] mset_eq_length [OF that(1)]
    by simp
  ultimately show ?thesis by simp
qed

theorem calculateMetrics_permutation_witness:
  "calculateMetrics (rev exampleLedger) = calculateMetrics exampleLedger"
  using calculateMetrics_permutation [of "rev exampleLedger" exampleLedger]
    exactPass_examples
  by simp

text \<open>
  The claim as stated fails under rounding: the doubles of \<^verbatim>\<open>0.1\<close>, \<^verbatim>\<open>0.2\<close> and
  \<^verbatim>\<open>0.3\<close> add up to \<^verbatim>\<open>0.6000000000000001\<close> in this order and to \<^verbatim>\<open>0.6\<close> in the
  reverse order.
\<close>

theorem calculateMetrics_permutation_counterexample:
  "mset [exampleTransaction APPROVED tenth ''2025-11-01T12:00:00Z'',
         exampleTransaction APPROVED fifth ''2025-11-01T12:00:00Z'',
         exampleTransaction APPROVED threeTenths ''2025-11-01T12:00:00Z''] =
   mset [exampleTransaction APPROVED threeTenths ''2025-11-01T12:00:00Z'',
         exampleTransaction APPROVED fifth ''2025-11-01T12:00:00Z'',
         exampleTransaction APPROVED tenth ''2025-11-01T12:00:00Z''] \<and>
   totalApproved (calculateMetrics
        [exampleTransaction APPROVED tenth ''2025-11-01T12:00:00Z'',
         exampleTransaction APPROVED fifth ''2025-11-01T12:00:00Z'',
         exampleTransaction APPROVED threeTenths ''2025-11-01T12:00:00Z'']) =
     Fin (1351079888211149 / 2251799813685248) \<and>
   totalApproved (calculateMetrics
        [exampleTransaction APPROVED threeTenths ''2025-11-01T12:00:00Z'',
         exampleTransaction APPROVED fifth ''2025-11-01T12:00:00Z'',
         exampleTransaction APPROVED tenth ''2025-11-01T12:00:00Z'']) =
     Fin (5404319552844595 / 9007199254740992) \<and>
   calculateMetrics
        [exampleTransaction APPROVED tenth ''2025-11-01T12:00:00Z'',
         exampleTransaction APPROVED fifth ''2025-11-01T12:00:00Z'',
         exampleTransaction APPROVED threeTenths ''2025-11-01T12:00:00Z''] \<noteq>
   calculateMetrics
        [exampleTransaction APPROVED threeTenths ''2025-11-01T12:00:00Z'',
         exampleTransaction APPROVED fifth ''2025-11-01T12:00:00Z'',
         exampleTransaction APPROVED tenth ''2025-11-01T12:00:00Z'']"
proof (intro conjI)
  show "mset [exampleTransaction APPROVED tenth ''2025-11-01T12:00:00Z'',
         exampleTransaction APPROVED fifth ''2025-11-01T12:00:00Z'',
         exampleTransaction APPROVED threeTenths ''2025-11-01T12:00:00Z''] =
   mset [exampleTransaction APPROVED threeTenths ''2025-11-01T12:00:00Z'',
         exampleTransaction APPROVED fifth ''2025-11-01T12:00:00Z'',
         exampleTransaction APPROVED tenth ''2025-11-01T12:00:00Z'']"
    by (simp add: add_mset_commute)
qed code_simp+

section \<open>Properties of the record transformer\<close>

text \<open>What \<open>parseFloat\<close> returns for a string without a minus sign is not negative.\<close>

lemma pow2_pos: "0 < pow2 k"
  by (simp add: pow2_def)

lemma pow10_pos: "0 < pow10 k"
  by (simp add: pow10_def)

lemma roundHalfEven_nonneg: "0 \<le> x \<Longrightarrow> 0 \<le> roundHalfEven x"
  by (auto simp add: roundHalfEven_def Let_def)

lemma round64_nonneg:
  assumes "0 \<le> q"
  shows "nonNegative (round64 q)"
proof (cases "q = 0")
  case True
  then show ?thesis by (simp add: round64_def)
next
  case False
  with assms have pos: "0 < q" by simp
  define e where "e = max (ilog2 \<bar>q\<bar> - 52) (- 1074)"
  define m where "m = roundHalfEven (\<bar>q\<bar> / pow2 e)"
  have "0 \<le> \<bar>q\<bar> / pow2 e"
    using pow2_pos [of e] by simp
  then have "0 \<le> m"
    unfolding m_def by (rule roundHalfEven_nonneg)
  then have "0 \<le> sgn q * (of_int m * pow2 e)"
    using pos pow2_pos [of e] by simp
  with pos False show ?thesis
    by (simp add: round64_def Let_def e_def m_def)
qed

lemma digitsValue_foldl_nonneg:
  assumes "\<forall>c\<in>set ds. isDigit c" and "0 \<le> v"
  shows "0 \<le> foldl (\<lambda>v c. 10 * v + (of_char c - 48)) (v :: int) ds"
  using assms
proof (induction ds arbitrary: v)
  case Nil
  then show ?case by simp
next
  case (Cons c cs)
  from Cons.prems have "isDigit c" by simp
  then have "48 \<le> int (of_char c)"
    by (simp add: isDigit_def)
  then have "(48 :: int) \<le> of_char c"
    by (simp only: of_nat_of_char)
  with Cons.prems have "0 \<le> 10 * v + (of_char c - 48)" by simp
  with Cons.IH [of "10 * v + (of_char c - 48)"] Cons.prems show ?case by simp
qed

lemma digitsValue_nonneg: "\<forall>c\<in>set ds. isDigit c \<Longrightarrow> 0 \<le> digitsValue ds"
  unfolding digitsValue_def by (rule digitsValue_foldl_nonneg) simp_all

lemma digitsValue_takeWhile: "0 \<le> digitsValue (takeWhile isDigit s)"
  by (rule digitsValue_nonneg) (auto dest: set_takeWhileD)

lemma digitsValue_takeWhile_append:
  "0 \<le> digitsValue (takeWhile isDigit s @ takeWhile isDigit r)"
  by (rule digitsValue_nonneg) (auto dest: set_takeWhileD)

lemma unsignedLiteral_nonneg:
  assumes "unsignedLiteral s = Some v"
  shows "nonNegative v"
proof -
  have a: "nonNegative (round64 (of_int (digitsValue (takeWhile isDigit s)) * pow10 k))"
    for k
    using digitsValue_takeWhile [of s] pow10_pos [of k] by (intro round64_nonneg) simp
  have b: "nonNegative (round64
      (of_int (digitsValue (takeWhile isDigit s @ takeWhile isDigit r)) * pow10 k))" for r k
    using digitsValue_takeWhile_append [of s r] pow10_pos [of k]
    by (intro round64_nonneg) simp
  have c: "nonNegative (round64 (of_int (digitsValue (takeWhile isDigit s))))"
    using digitsValue_takeWhile [of s] by (intro round64_nonneg) simp
  from assms show ?thesis
    using a b c
    by (auto simp add: unsignedLiteral_def Let_def split: if_splits list.splits)
qed

lemma parseFloat_nonneg:
  assumes "\<not> minusSigned s"
  shows "parseFloat s = NaN \<or> nonNegative (parseFloat s)"
proof (cases "dropWhile isWhiteSpace s")
  case Nil
  have "parseFloat s = NaN"
    unfolding parseFloat_def Nil by simp
  then show ?thesis by simp
next
  case (Cons c r)
  with assms have minus: "c \<noteq> CHR ''-''"
    by (simp add: minusSigned_def)
  have "parseFloat s =
      (if c = CHR ''+'' then (case unsignedLiteral r of None \<Rightarrow> NaN | Some v \<Rightarrow> v)
       else (case unsignedLiteral (c # r) of None \<Rightarrow> NaN | Some v \<Rightarrow> v))"
    unfolding parseFloat_def Cons using minus by simp
  then show ?thesis
    by (auto split: option.splits dest: unsignedLiteral_nonneg)
qed

text \<open>For a minus-signed string it is not positive.\<close>

lemma fneg_fneg: "fneg (fneg x) = x"
  by (cases x) simp_all

lemma parseFloat_minus:
  assumes "minusSigned s"
  shows "parseFloat s = NaN \<or> nonNegative (fneg (parseFloat s))"
proof (cases "dropWhile isWhiteSpace s")
  case Nil
  have "parseFloat s = NaN"
    unfolding parseFloat_def Nil by simp
  then show ?thesis by simp
next
  case (Cons c r)
  with assms have minus: "c = CHR ''-''"
    by (simp add: minusSigned_def)
  have "parseFloat s = (case unsignedLiteral r of None \<Rightarrow> NaN | Some v \<Rightarrow> fneg v)"
    unfolding parseFloat_def Cons using minus by simp
  then show ?thesis
    by (auto simp add: fneg_fneg split: option.splits dest: unsignedLiteral_nonneg)
qed

text \<open>A string that does not start like a literal has no prefix that is a number.\<close>

lemma parseFloat_no_literal:
  assumes "\<not> startsLiteral s"
  shows "parseFloat s = NaN"
proof (cases "dropWhile isWhiteSpace s")
  case Nil
  show ?thesis
    unfolding parseFloat_def Nil by simp
next
  case (Cons c r)
  with assms have c: "\<not> isDigit c" "c \<noteq> CHR ''+''" "c \<noteq> CHR ''-''" "c \<noteq> CHR ''.''"
    "c \<noteq> CHR ''I''"
    by (simp_all add: startsLiteral_def)
  then have "unsignedLiteral (c # r) = None"
    by (auto simp add: unsignedLiteral_def Let_def)
  with c show ?thesis
    unfolding parseFloat_def Cons by simp
qed

lemma parseFloat_examples:
  "parseFloat ''10'' = Fin 10"
  "parseFloat ''5'' = Fin 5"
  "parseFloat ''0'' = Fin 0"
  by code_simp+

lemma parseFloat_unparsable:
  "parseFloat ''abc'' = NaN"
  "parseFloat ''-5'' = Fin (- 5)"
  "\<not> minusSigned ''10''"
  "minusSigned ''-5''"
  "\<not> startsLiteral ''abc''"
  by code_simp+

text \<open>
  Claim C2, as the code has it. The amount of a transformed payment or refund is
  \<open>parseFloat\<close> of the provider amount string; a missing or empty string gives exactly
  \<open>0\<close>. A string that does not start like a literal gives \<^verbatim>\<open>NaN\<close>. A string that is
  not minus-signed gives \<^verbatim>\<open>NaN\<close> or a non-negative number; a minus-signed string gives
  \<^verbatim>\<open>NaN\<close> or a number whose negation is non-negative, that is zero, a negative value
  or \<^verbatim>\<open>-Infinity\<close>.
\<close>

theorem amount_parsing:
  "amount (transformPaymentToTransaction pl payment order) =
     (case Option.bind (p_amount payment) m_amount of
        None \<Rightarrow> Fin 0 | Some s \<Rightarrow> if s = [] then Fin 0 else parseFloat s) \<and>
   amount (transformRefundToTransaction pl refund order) =
     (case Option.bind (Option.bind (summary refund) refunded) m_amount of
        None \<Rightarrow> Fin 0 | Some s \<Rightarrow> if s = [] then Fin 0 else parseFloat s) \<and>
   (\<not> startsLiteral s \<longrightarrow> parseFloat s = NaN) \<and>
   (\<not> minusSigned s \<longrightarrow> parseFloat s = NaN \<or> nonNegative (parseFloat s)) \<and>
   (minusSigned s \<longrightarrow> parseFloat s = NaN \<or> nonNegative (fneg (parseFloat s)))"
  by (simp add: transformPaymentToTransaction_def transformRefundToTransaction_def
      orDefault_def parseFloat_examples(3) parseFloat_nonneg parseFloat_minus
      parseFloat_no_literal split: option.splits)

theorem amount_parsing_witness:
  "amount (transformPaymentToTransaction examplePlatform
     (examplePayment ''APPROVED'' ''10'' ''2025-11-01T12:00:00Z'') (Some exampleOrder)) =
     Fin 10 \<and>
   amount (transformPaymentToTransaction examplePlatform emptyPayment None) = Fin 0 \<and>
   amount (transformRefundToTransaction examplePlatform (exampleRefund ''5'') None) = Fin 5 \<and>
   nonNegative (parseFloat ''10'') \<and>
   nonNegative (fneg (parseFloat ''-5'')) \<and>
   parseFloat ''abc'' = NaN"
  using amount_parsing [where pl = examplePlatform and order = "Some exampleOrder"
      and payment = "examplePayment ''APPROVED'' ''10'' ''2025-11-01T12:00:00Z''"
      and refund = "exampleRefund ''5''" and s = "''10''"]
    amount_parsing [where pl = examplePlatform and order = None and payment = emptyPayment
      and refund = "exampleRefund ''5''" and s = "''-5''"]
    amount_parsing [where pl = examplePlatform and order = None and payment = emptyPayment
      and refund = "exampleRefund ''5''" and s = "''abc''"]
  by (simp add: examplePayment_def exampleRefund_def emptyPayment_def parseFloat_examples
      parseFloat_unparsable)

text \<open>
  The claim as stated fails twice: the amount string \<^verbatim>\<open>abc\<close>, which is no number,
  gives \<^verbatim>\<open>NaN\<close>, not \<open>0\<close>, and the amount string \<^verbatim>\<open>-5\<close> gives the negative amount
  \<open>-5\<close>.
\<close>

theorem amount_parsing_counterexample:
  "amount (transformPaymentToTransaction examplePlatform
     (examplePayment ''APPROVED'' ''abc'' ''2025-11-01T12:00:00Z'') (Some exampleOrder)) =
     NaN \<and>
   amount (transformPaymentToTransaction examplePlatform
     (examplePayment ''APPROVED'' ''-5'' ''2025-11-01T12:00:00Z'') (Some exampleOrder)) =
     Fin (- 5) \<and>
   amount (transformRefundToTransaction examplePlatform (exampleRefund ''-5'') None) =
     Fin (- 5)"
  by (simp add: transformPaymentToTransaction_def transformRefundToTransaction_def
      examplePayment_def exampleRefund_def orDefault_def parseFloat_unparsable)

lemma toLowerCase_examples:
  "toLowerCase ''APPROVED'' = ''approved''"
  "toLowerCase ''PENDING'' = ''pending''"
  "toLowerCase ''approved'' = ''approved''"
  by code_simp+

text \<open>
  Claim C5. The status of a transformed payment is \<open>APPROVED\<close> for the provider statuses
  \<open>APPROVED\<close> and \<open>AUTHORIZED\<close>, \<open>DECLINED\<close> for \<open>DECLINED\<close> and \<open>CANCELED\<close>, \<open>REFUNDED\<close> for
  \<open>REFUNDED\<close> and \<open>PARTIALLY_REFUNDED\<close>, \<open>PENDING\<close> for \<open>PENDING\<close> and \<open>PENDING_MERCHANT\<close>, and
  \<open>PENDING\<close> for every other provider status, an absent or an empty one included; the
  comparison is on the exact string. The status of a transformed refund is \<open>REFUNDED\<close>.
  The functions are total, so nothing is thrown.
\<close>

theorem status_mapping:
  fixes pl :: Platform and payment :: Payment and order :: "Order option"
  defines "s \<equiv> providerStatus payment"
  defines "st \<equiv> status (transformPaymentToTransaction pl payment order)"
  shows "(s = Some ''APPROVED'' \<or> s = Some ''AUTHORIZED'' \<longrightarrow> st = APPROVED) \<and>
         (s = Some ''DECLINED'' \<or> s = Some ''CANCELED'' \<longrightarrow> st = DECLINED) \<and>
         (s = Some ''REFUNDED'' \<or> s = Some ''PARTIALLY_REFUNDED'' \<longrightarrow> st = REFUNDED) \<and>
         (s = Some ''PENDING'' \<or> s = Some ''PENDING_MERCHANT'' \<longrightarrow> st = PENDING) \<and>
         (s \<notin> Some ` {''APPROVED'', ''AUTHORIZED'', ''DECLINED'', ''CANCELED'', ''REFUNDED'',
                     ''PARTIALLY_REFUNDED''} \<longrightarrow> st = PENDING) \<and>
         status (transformRefundToTransaction pl refund order') = REFUNDED"
  unfolding s_def st_def
  by (auto simp add: transformPaymentToTransaction_def transformRefundToTransaction_def
      paymentStatus_def split: option.splits)

theorem status_mapping_witness:
  "status (transformPaymentToTransaction examplePlatform
     (examplePayment ''AUTHORIZED'' ''10'' ''2025-11-01T12:00:00Z'') (Some exampleOrder))
     = APPROVED \<and>
   status (transformPaymentToTransaction examplePlatform
     (examplePayment ''CANCELED'' ''10'' ''2025-11-01T12:00:00Z'') (Some exampleOrder))
     = DECLINED \<and>
   status (transformPaymentToTransaction examplePlatform
     (examplePayment ''PARTIALLY_REFUNDED'' ''10'' ''2025-11-01T12:00:00Z'')
     (Some exampleOrder)) = REFUNDED \<and>
   status (transformPaymentToTransaction examplePlatform
     (examplePayment ''PENDING_MERCHANT'' ''10'' ''2025-11-01T12:00:00Z'')
     (Some exampleOrder)) = PENDING \<and>
   status (transformPaymentToTransaction examplePlatform
     (examplePayment ''approved'' ''10'' ''2025-11-01T12:00:00Z'') (Some exampleOrder))
     = PENDING \<and>
   status (transformRefundToTransaction examplePlatform (exampleRefund ''5'') None) = REFUNDED"
  using status_mapping [where pl = examplePlatform and order = "Some exampleOrder"
      and payment = "examplePayment ''AUTHORIZED'' ''10'' ''2025-11-01T12:00:00Z''"
      and refund = "exampleRefund ''5''" and order' = None]
    status_mapping [where pl = examplePlatform and order = "Some exampleOrder"
      and payment = "examplePayment ''CANCELED'' ''10'' ''2025-11-01T12:00:00Z''"]
    status_mapping [where pl = examplePlatform and order = "Some exampleOrder"
      and payment = "examplePayment ''PARTIALLY_REFUNDED'' ''10'' ''2025-11-01T12:00:00Z''"]
    status_mapping [where pl = examplePlatform and order = "Some exampleOrder"
      and payment = "examplePayment ''PENDING_MERCHANT'' ''10'' ''2025-11-01T12:00:00Z''"]
    status_mapping [where pl = examplePlatform and order = "Some exampleOrder"
      and payment = "examplePayment ''approved'' ''10'' ''2025-11-01T12:00:00Z''"]
  by (simp add: examplePayment_def providerStatus_def)

section \<open>Properties of \<^verbatim>\<open>applyFilters\<close>\<close>

lemma statusMatches_update [simp]:
  "statusMatches (f\<lparr>dateRange := d\<rparr>) = statusMatches f"
  "statusMatches (f\<lparr>searchQuery := q\<rparr>) = statusMatches f"
  by (simp_all add: fun_eq_iff statusMatches_def)

lemma applyFilters_absent: "applyFilters pl txs None = txs"
  by (simp add: applyFilters_def)

lemma applyFilters_noFilters: "applyFilters pl txs (Some noFilters) = txs"
  by (simp add: applyFilters_def noFilters_def statusActive_def truthy_def)

text \<open>Every step on the store leaves the arrays that exist as they are.\<close>

lemma filterRef_frame:
  assumes "filterRef g keep (h1, r1) = (h2, r2)" and "r1 < length h1"
    and "take n h1 = h" and "n \<le> length h1"
  shows "r2 < length h2 \<and> take n h2 = h \<and> n \<le> length h2 \<and>
         h2 ! r2 = (if g then filter keep (h1 ! r1) else h1 ! r1)"
  using assms by (auto simp add: filterRef_def alloc_def nth_append split: if_splits)

lemma applyFiltersRef_frame:
  assumes "r < length h" and "applyFiltersRef pl h r filters = (h', r')"
  shows "take (length h) h' = h \<and> r' < length h' \<and>
         h' ! r' = applyFilters pl (h ! r) filters"
proof (cases filters)
  case None
  with assms show ?thesis by (simp add: applyFiltersRef_def applyFilters_def)
next
  case (Some f)
  obtain h0 r0 where a0: "alloc h (h ! r) = (h0, r0)"
    by (cases "alloc h (h ! r)")
  then have b0: "r0 < length h0" "take (length h) h0 = h" "length h \<le> length h0"
    "h0 ! r0 = h ! r"
    by (auto simp add: alloc_def)
  obtain h1 r1 where a1: "filterRef (statusActive f) (statusMatches f) (h0, r0) = (h1, r1)"
    by (cases "filterRef (statusActive f) (statusMatches f) (h0, r0)")
  note b1 = filterRef_frame [OF a1 b0(1) b0(2) b0(3)]
  obtain h2 r2 where a2: "filterRef (truthy (searchQuery f))
      (searchMatches (toLowerCase (template (searchQuery f)))) (h1, r1) = (h2, r2)"
    by (cases "filterRef (truthy (searchQuery f))
      (searchMatches (toLowerCase (template (searchQuery f)))) (h1, r1)")
  from b1 have c1: "r1 < length h1" "take (length h) h1 = h" "length h \<le> length h1"
    by simp_all
  note b2 = filterRef_frame [OF a2 c1]
  from b2 have c2: "r2 < length h2" "take (length h) h2 = h" "length h \<le> length h2"
    by simp_all
  from assms(2) Some a0 a1 a2 have a3: "filterRef (dateActive f)
      (dateMatches pl (case dateRange f of None \<Rightarrow> 0 | Some n \<Rightarrow> n)) (h2, r2) = (h', r')"
    by (simp add: applyFiltersRef_def)
  note b3 = filterRef_frame [OF a3 c2]
  from b1 b2 b3 b0(4) Some show ?thesis
    by (auto simp add: applyFilters_def Let_def dateActive_def split: option.splits)
qed

text \<open>
  Claim C8. With the filters absent, and with the empty filter object, \<open>applyFilters\<close>
  returns the transactions it was given. Whatever the filters, the array it was given
  holds the same transactions afterwards, as does every other array of the store, and
  the array it returns holds what \<open>applyFilters\<close> computes.
\<close>

theorem applyFilters_identity:
  "applyFilters pl txs None = txs \<and> applyFilters pl txs (Some noFilters) = txs \<and>
   (r < length h \<longrightarrow>
      (case applyFiltersRef pl h r filters of
         (h', r') \<Rightarrow> h' ! r = h ! r \<and> take (length h) h' = h \<and>
           h' ! r' = applyFilters pl (h ! r) filters))"
proof -
  have "h' ! r = h ! r \<and> take (length h) h' = h \<and>
           h' ! r' = applyFilters pl (h ! r) filters"
    if "r < length h" and "applyFiltersRef pl h r filters = (h', r')" for h' r'
  proof -
    from applyFiltersRef_frame [OF that]
    have t: "take (length h) h' = h" and c: "h' ! r' = applyFilters pl (h ! r) filters"
      by simp_all
    from t that(1) have "h' ! r = h ! r"
      by (metis nth_take)
    with t c show ?thesis by simp
  qed
  then show ?thesis
    by (auto simp add: applyFilters_absent applyFilters_noFilters split: prod.splits)
qed

theorem applyFilters_identity_witness:
  "(case applyFiltersRef examplePlatform
       [[exampleTransaction APPROVED (Fin 10) ''2025-11-01T12:00:00Z'',
         exampleTransaction PENDING (Fin 5) ''2025-11-01T12:00:00Z'']] 0
       (Some (noFilters\<lparr>fstatus := Some ''approved''\<rparr>)) of
     (h', r') \<Rightarrow>
       h' ! 0 = [exampleTransaction APPROVED (Fin 10) ''2025-11-01T12:00:00Z'',
                 exampleTransaction PENDING (Fin 5) ''2025-11-01T12:00:00Z''] \<and>
       h' ! r' = [exampleTransaction APPROVED (Fin 10) ''2025-11-01T12:00:00Z''])"
  using applyFilters_identity [where pl = examplePlatform and r = 0
      and h = "[[exampleTransaction APPROVED (Fin 10) ''2025-11-01T12:00:00Z'',
         exampleTransaction PENDING (Fin 5) ''2025-11-01T12:00:00Z'']]"
      and filters = "Some (noFilters\<lparr>fstatus := Some ''approved''\<rparr>)"]
  by (simp add: applyFilters_def noFilters_def statusActive_def truthy_def statusMatches_def
      exampleTransaction_def toLowerCase_examples split: prod.splits)

text \<open>
  Claim C10. A \<open>dateRange\<close> of \<open>0\<close> and an empty \<open>searchQuery\<close> are falsy, so each is
  treated as if the field were absent, whatever the other fields hold: with
  \<open>dateRange = 0\<close> no date constraint is applied, with an empty \<open>searchQuery\<close> no search
  constraint is applied.
\<close>

theorem applyFilters_falsy:
  "applyFilters pl txs (Some (f\<lparr>dateRange := Some 0\<rparr>)) =
     applyFilters pl txs (Some (f\<lparr>dateRange := None\<rparr>)) \<and>
   applyFilters pl txs (Some (f\<lparr>searchQuery := Some ''''\<rparr>)) =
     applyFilters pl txs (Some (f\<lparr>searchQuery := None\<rparr>)) \<and>
   applyFilters pl txs (Some (f\<lparr>dateRange := Some 0, searchQuery := Some ''''\<rparr>)) =
     applyFilters pl txs (Some (f\<lparr>dateRange := None, searchQuery := None\<rparr>))"
  by (auto simp add: applyFilters_def statusActive_def truthy_def Let_def
      split: option.splits)

theorem applyFilters_falsy_witness:
  "applyFilters examplePlatform
     [exampleTransaction APPROVED (Fin 10) ''2025-10-01T12:00:00Z'']
     (Some (noFilters\<lparr>dateRange := Some 0, searchQuery := Some ''''\<rparr>)) =
   [exampleTransaction APPROVED (Fin 10) ''2025-10-01T12:00:00Z'']"
  using applyFilters_falsy [where pl = examplePlatform and f = noFilters
      and txs = "[exampleTransaction APPROVED (Fin 10) ''2025-10-01T12:00:00Z'']"]
    applyFilters_noFilters [where pl = examplePlatform
      and txs = "[exampleTransaction APPROVED (Fin 10) ''2025-10-01T12:00:00Z'']"]
  by (simp add: noFilters_def)




section \<open>Properties of \<^verbatim>\<open>fetchTransactions\<close> and \<^verbatim>\<open>refreshTransactions\<close>\<close>

text \<open>
  Claim C4. When the SDK fails to load, when the order search throws, when it returns
  no order (no collection or an empty one), and when the transaction listing throws,
  \<open>fetchTransactions\<close> returns the synthetic dataset of five records with
  \<open>usingMockData = true\<close>; and it never fails, whatever the provider does.
\<close>

theorem fetch_falls_back:
  "(sdkImport = Inl e \<longrightarrow>
      fetchTransactions pl sdkImport filters =
        Inr \<lparr>data = getMockTransactions, usingMockData = True\<rparr>) \<and>
   (sdkImport = Inr sdk \<and> searchOrders sdk = Inl e \<longrightarrow>
      fetchTransactions pl sdkImport filters =
        Inr \<lparr>data = getMockTransactions, usingMockData = True\<rparr>) \<and>
   (sdkImport = Inr sdk \<and> searchOrders sdk = Inr r \<and> listOrEmpty (orders r) = [] \<longrightarrow>
      fetchTransactions pl sdkImport filters =
        Inr \<lparr>data = getMockTransactions, usingMockData = True\<rparr>) \<and>
   (sdkImport = Inr sdk \<and> searchOrders sdk = Inr r \<and> orders r = Some os \<and>
      listTransactionsForMultipleOrders sdk (List.map_filter o_id os) = Inl e \<longrightarrow>
      fetchTransactions pl sdkImport filters =
        Inr \<lparr>data = getMockTransactions, usingMockData = True\<rparr>) \<and>
   (\<exists>result. fetchTransactions pl sdkImport filters = Inr result) \<and>
   length getMockTransactions = 5"
  by (auto simp add: fetchTransactions_def fetchFromSdk_def listOrEmpty_def Let_def
      getMockTransactions_def split: sum.splits option.splits)

theorem fetch_falls_back_witness:
  "fetchTransactions examplePlatform (Inl (Error ''offline'')) None =
     Inr \<lparr>data = getMockTransactions, usingMockData = True\<rparr> \<and>
   fetchTransactions examplePlatform
     (Inr \<lparr>searchOrders = Inr \<lparr>orders = Some []\<rparr>,
           listTransactionsForMultipleOrders = (\<lambda>ids. Inl (Error ''unused''))\<rparr>) None =
     Inr \<lparr>data = getMockTransactions, usingMockData = True\<rparr> \<and>
   fetchTransactions examplePlatform
     (Inr \<lparr>searchOrders = Inr \<lparr>orders = Some [exampleOrder]\<rparr>,
           listTransactionsForMultipleOrders = (\<lambda>ids. Inl (Error ''timeout''))\<rparr>) None =
     Inr \<lparr>data = getMockTransactions, usingMockData = True\<rparr>"
  using fetch_falls_back [where pl = examplePlatform
      and sdkImport = "Inl (Error ''offline'')" and e = "Error ''offline''"
      and filters = None]
    fetch_falls_back [where pl = examplePlatform and filters = None
      and sdk = "\<lparr>searchOrders = Inr \<lparr>orders = Some []\<rparr>,
           listTransactionsForMultipleOrders = (\<lambda>ids. Inl (Error ''unused''))\<rparr>"
      and sdkImport = "Inr \<lparr>searchOrders = Inr \<lparr>orders = Some []\<rparr>,
           listTransactionsForMultipleOrders = (\<lambda>ids. Inl (Error ''unused''))\<rparr>"
      and r = "\<lparr>orders = Some []\<rparr>"]
    fetch_falls_back [where pl = examplePlatform and filters = None
      and sdk = "\<lparr>searchOrders = Inr \<lparr>orders = Some [exampleOrder]\<rparr>,
           listTransactionsForMultipleOrders = (\<lambda>ids. Inl (Error ''timeout''))\<rparr>"
      and sdkImport = "Inr \<lparr>searchOrders = Inr \<lparr>orders = Some [exampleOrder]\<rparr>,
           listTransactionsForMultipleOrders = (\<lambda>ids. Inl (Error ''timeout''))\<rparr>"
      and r = "\<lparr>orders = Some [exampleOrder]\<rparr>" and os = "[exampleOrder]"
      and e = "Error ''timeout''"]
  by (simp add: listOrEmpty_def)

text \<open>
  \<open>refreshTransactions\<close> passes \<open>dateRange = 7\<close> to \<open>fetchTransactions\<close>, which reads the
  status of its filters and nothing else: a refresh is a fetch without filters.
\<close>

lemma passesStatus_no_status:
  "passesStatus (Some \<lparr>fstatus = None, dateRange = d, searchQuery = q, limit = l,
     offset = k\<rparr>) = passesStatus None"
  by (simp add: fun_eq_iff passesStatus_def truthy_def)

lemma transactionsOf_no_status:
  "transactionsOf pl (Some \<lparr>fstatus = None, dateRange = d, searchQuery = q, limit = l,
     offset = k\<rparr>) os = transactionsOf pl None os"
  by (simp add: fun_eq_iff transactionsOf_def passesStatus_no_status)

lemma refresh_is_unfiltered_fetch:
  "refreshTransactions pl sdkImport = fetchTransactions pl sdkImport None"
  by (simp add: refreshTransactions_def fetchTransactions_def fetchFromSdk_def
      transactionsOf_no_status Let_def split: sum.splits option.splits)

text \<open>
  Claim C1 does not hold of the code. The provider returns one order with one payment
  created \<open>32.5\<close> days before now: \<open>refreshTransactions\<close> returns that payment as live
  data, where a fetch constrained to the last \<open>7\<close> days returns none.
\<close>

theorem refresh_keeps_old_transactions:
  "refreshTransactions examplePlatform
     (Inr (exampleSdk [examplePayment ''APPROVED'' ''10'' ''2025-10-01T12:00:00Z''])) =
     Inr \<lparr>data =
           [\<lparr>id' = ''pay-1'', amount = Fin 10, currency = ''EUR'', status = APPROVED,
             paymentMethod = ''creditCard'', customerName = Some ''Ada Lovelace'',
             customerEmail = Some ''ada@example.com'',
             createdDate = ''2025-10-01T12:00:00Z'',
             description = Some ''Order #1001 payment'', provider = Some ''creditCard'',
             providerTransactionId = Some ''ptx-1'', type' = Some ''PAYMENT''\<rparr>],
          usingMockData = False\<rparr> \<and>
   fetchLast7Days_spec examplePlatform
     (Inr (exampleSdk [examplePayment ''APPROVED'' ''10'' ''2025-10-01T12:00:00Z''])) =
     Inr \<lparr>data = [], usingMockData = False\<rparr> \<and>
   parseDate examplePlatform ''2025-10-01T12:00:00Z'' = Some 1759320000000 \<and>
   1759320000000 < now examplePlatform - 7 * msPerDay"
  by (simp add: refresh_is_unfiltered_fetch fetchLast7Days_spec_def fetchTransactions_def
      fetchFromSdk_def exampleSdk_def exampleOrder_def examplePayment_def
      List.map_filter_def listOrEmpty_def transactionsOf_def passesStatus_def
      transformPaymentToTransaction_def paymentStatus_def providerStatus_def orDefault_def
      orElse_def truthy_def template_def orderLabel_def getCustomerNameFromOrder_def
      parseFloat_examples dateMatches_def dateGe_def cutoffDate_def utcTime_def
      localTime_def timeClip_def msPerDay_def examplePlatform_def)

end
